theory Spec2Isabelle
  imports Main "HOL-Library.Word" "HOL-Library.Code_Target_Nat"
begin

section \<open>Data model (schema.ts, executor.ts)\<close>

text \<open>
  A number is a double. The model has the integers of magnitude below \<open>2 ^ 53\<close>,
  given by their sign (\<open>True\<close> for negative, so that negative zero exists) and
  their magnitude: each of them is a double, and \<^verbatim>\<open>String\<close> prints it as a plain
  decimal numeral. It also has not-a-number and the two infinities (\<open>True\<close> for
  the negative one). Fractions and integers of larger magnitude, whose text needs
  the shortest digits that read back as the same double, are outside the model.
\<close>

datatype jsnumber = Integer bool "53 word" | NaN | Infinity bool

text \<open>
  The scalar values of a parameter map and of a default value:
  \<^verbatim>\<open>string | number | boolean\<close>. Strings are lists of code units below 256.
\<close>

datatype scalar = Str string | Num jsnumber | Bool bool

datatype argType = TString | TNumber | TBoolean

text \<open>\<^verbatim>\<open>ICommandArgument\<close>; the optional \<^verbatim>\<open>defaultValue\<close> is an option.\<close>

record ICommandArgument =
  name :: string
  description :: string
  argType :: argType
  required :: bool
  defaultValue :: "scalar option"

text \<open>\<^verbatim>\<open>ICommandLineEntry\<close>.\<close>

record ICommandLineEntry =
  cmdName :: string
  cmdDescription :: string
  command :: string
  arguments :: "ICommandArgument list"

text \<open>\<^verbatim>\<open>ICommandExecutionResult\<close>.\<close>

record ICommandExecutionResult =
  success :: bool
  stdout :: string
  stderr :: string
  exitCode :: int

text \<open>
  \<^verbatim>\<open>ICommandExecutionParams\<close>: the own enumerable properties of the parameter
  object, in the order \<^verbatim>\<open>Object.entries\<close> lists them. The keys of an object are
  distinct; a lookup takes the first entry of a key.
\<close>

type_synonym ICommandExecutionParams = "(string \<times> scalar) list"

section \<open>The JavaScript operations the executor uses\<close>

text \<open>
  A parameter object is a plain object (the default parameter is the literal
  \<^verbatim>\<open>{}\<close>), so its prototype is \<^verbatim>\<open>Object.prototype\<close>. Both
  \<^verbatim>\<open>name in params\<close> and \<^verbatim>\<open>params[name]\<close> consult the prototype when the
  object has no own property of that name. \<open>objectPrototype\<close> lists the members of
  \<^verbatim>\<open>Object.prototype\<close>, each with the text \<^verbatim>\<open>String\<close> gives for the member as
  Node prints it.
\<close>

definition nativeFunction :: "string \<Rightarrow> string" where
  "nativeFunction f = ''function '' @ f @ ''() { [native code] }''"

definition objectPrototype :: "(string \<times> string) list" where
  "objectPrototype =
    [(''constructor'', nativeFunction ''Object''),
     (''__defineGetter__'', nativeFunction ''__defineGetter__''),
     (''__defineSetter__'', nativeFunction ''__defineSetter__''),
     (''hasOwnProperty'', nativeFunction ''hasOwnProperty''),
     (''__lookupGetter__'', nativeFunction ''__lookupGetter__''),
     (''__lookupSetter__'', nativeFunction ''__lookupSetter__''),
     (''isPrototypeOf'', nativeFunction ''isPrototypeOf''),
     (''propertyIsEnumerable'', nativeFunction ''propertyIsEnumerable''),
     (''toString'', nativeFunction ''toString''),
     (''valueOf'', nativeFunction ''valueOf''),
     (''__proto__'', ''[object Object]''),
     (''toLocaleString'', nativeFunction ''toLocaleString'')]"

text \<open>
  What a property read can give: a scalar of the object itself, or a member
  inherited from the prototype (kept as the text \<^verbatim>\<open>String\<close> yields for it).
  \<^verbatim>\<open>undefined\<close> is \<open>None\<close>.
\<close>

datatype jsvalue = Scalar scalar | Inherited string

text \<open>\<^verbatim>\<open>key in params\<close>.\<close>

definition hasProperty :: "string \<Rightarrow> ICommandExecutionParams \<Rightarrow> bool" where
  "hasProperty key params =
    (map_of params key \<noteq> None \<or> map_of objectPrototype key \<noteq> None)"

text \<open>\<^verbatim>\<open>params[key]\<close>.\<close>

definition getProperty :: "ICommandExecutionParams \<Rightarrow> string \<Rightarrow> jsvalue option" where
  "getProperty params key =
    (case map_of params key of
       Some v \<Rightarrow> Some (Scalar v)
     | None \<Rightarrow> map_option Inherited (map_of objectPrototype key))"

text \<open>\<^verbatim>\<open>Object.entries(params)\<close>: own properties only.\<close>

definition Object_entries :: "ICommandExecutionParams \<Rightarrow> (string \<times> scalar) list" where
  "Object_entries params = params"

text \<open>\<^verbatim>\<open>typeof\<close> on a scalar.\<close>

fun typeof :: "scalar \<Rightarrow> string" where
  "typeof (Str s) = ''string''"
| "typeof (Num x) = ''number''"
| "typeof (Bool b) = ''boolean''"

text \<open>The decimal numeral of a natural number.\<close>

definition digitChar :: "nat \<Rightarrow> char" where
  "digitChar d = char_of (48 + d)"

fun decimal :: "nat \<Rightarrow> string" where
  "decimal n = (if n < 10 then [digitChar n] else decimal (n div 10) @ [digitChar (n mod 10)])"

declare decimal.simps [simp del]

text \<open>
  \<^verbatim>\<open>String(x)\<close> for a number: both zeros print as \<^verbatim>\<open>0\<close>, every other
  integer as its digits after the sign.
\<close>

fun numberToString :: "jsnumber \<Rightarrow> string" where
  "numberToString (Integer negative m) =
     (if negative \<and> m \<noteq> 0 then ''-'' @ decimal (unat m) else decimal (unat m))"
| "numberToString NaN = ''NaN''"
| "numberToString (Infinity negative) = (if negative then ''-Infinity'' else ''Infinity'')"

text \<open>\<^verbatim>\<open>String(value)\<close>.\<close>

fun String_of :: "jsvalue \<Rightarrow> string" where
  "String_of (Scalar (Str s)) = s"
| "String_of (Scalar (Num x)) = numberToString x"
| "String_of (Scalar (Bool b)) = (if b then ''true'' else ''false'')"
| "String_of (Inherited text) = text"

text \<open>
  \<^verbatim>\<open>isNaN(Number(value))\<close>. A boolean converts to 1 or 0 and a number to itself.
  A string converts to not-a-number exactly when, with the white space at both ends
  removed, it is neither empty nor a \<^verbatim>\<open>StrNumericLiteral\<close> of the language
  grammar: a signed decimal literal (digits, an optional fraction, an optional
  exponent, or \<^verbatim>\<open>Infinity\<close>), or an unsigned binary, octal or hexadecimal integer.
\<close>

definition isStrWhiteSpaceChar :: "char \<Rightarrow> bool" where
  "isStrWhiteSpaceChar c = ((of_char c :: nat) \<in> set [9, 10, 11, 12, 13, 32, 160])"

definition trimString :: "string \<Rightarrow> string" where
  "trimString s = rev (dropWhile isStrWhiteSpaceChar (rev (dropWhile isStrWhiteSpaceChar s)))"

definition isDecimalDigit :: "char \<Rightarrow> bool" where
  "isDecimalDigit c = (c \<in> set ''0123456789'')"

definition isBinaryDigit :: "char \<Rightarrow> bool" where
  "isBinaryDigit c = (c \<in> set ''01'')"

definition isOctalDigit :: "char \<Rightarrow> bool" where
  "isOctalDigit c = (c \<in> set ''01234567'')"

definition isHexDigit :: "char \<Rightarrow> bool" where
  "isHexDigit c = (c \<in> set ''0123456789abcdefABCDEF'')"

definition isDigits :: "(char \<Rightarrow> bool) \<Rightarrow> string \<Rightarrow> bool" where
  "isDigits p s = (s \<noteq> [] \<and> list_all p s)"

fun isSignedInteger :: "string \<Rightarrow> bool" where
  "isSignedInteger [] = False"
| "isSignedInteger (c # cs) =
    (if c = CHR ''+'' \<or> c = CHR ''-'' then isDigits isDecimalDigit cs
     else isDigits isDecimalDigit (c # cs))"

fun isExponentPartOpt :: "string \<Rightarrow> bool" where
  "isExponentPartOpt [] = True"
| "isExponentPartOpt (c # cs) = ((c = CHR ''e'' \<or> c = CHR ''E'') \<and> isSignedInteger cs)"

definition isStrUnsignedDecimalLiteral :: "string \<Rightarrow> bool" where
  "isStrUnsignedDecimalLiteral s =
    (s = ''Infinity'' \<or>
     (let intPart = takeWhile isDecimalDigit s; rest = dropWhile isDecimalDigit s
      in case rest of
           [] \<Rightarrow> intPart \<noteq> []
         | c # cs \<Rightarrow>
             if c = CHR ''.''
             then (intPart \<noteq> [] \<or> takeWhile isDecimalDigit cs \<noteq> []) \<and>
                  isExponentPartOpt (dropWhile isDecimalDigit cs)
             else intPart \<noteq> [] \<and> isExponentPartOpt rest))"

fun isStrDecimalLiteral :: "string \<Rightarrow> bool" where
  "isStrDecimalLiteral [] = False"
| "isStrDecimalLiteral (c # cs) =
    (if c = CHR ''+'' \<or> c = CHR ''-'' then isStrUnsignedDecimalLiteral cs
     else isStrUnsignedDecimalLiteral (c # cs))"

fun isNonDecimalIntegerLiteral :: "string \<Rightarrow> bool" where
  "isNonDecimalIntegerLiteral (z # x # ds) =
    (z = CHR ''0'' \<and>
     (if x = CHR ''b'' \<or> x = CHR ''B'' then isDigits isBinaryDigit ds
      else if x = CHR ''o'' \<or> x = CHR ''O'' then isDigits isOctalDigit ds
      else if x = CHR ''x'' \<or> x = CHR ''X'' then isDigits isHexDigit ds
      else False))"
| "isNonDecimalIntegerLiteral _ = False"

definition isStringNumericLiteral :: "string \<Rightarrow> bool" where
  "isStringNumericLiteral s =
    (let t = trimString s
     in t = [] \<or> isStrDecimalLiteral t \<or> isNonDecimalIntegerLiteral t)"

fun isNaN_Number :: "scalar \<Rightarrow> bool" where
  "isNaN_Number (Str s) = (\<not> isStringNumericLiteral s)"
| "isNaN_Number (Num x) = (x = NaN)"
| "isNaN_Number (Bool b) = False"

text \<open>\<^verbatim>\<open>s.split(' ')\<close>: the pieces between single spaces; never an empty list.\<close>

fun split_space :: "string \<Rightarrow> string list" where
  "split_space [] = [[]]"
| "split_space (c # cs) =
    (if c = CHR '' '' then [] # split_space cs
     else (case split_space cs of
             [] \<Rightarrow> [[c]]
           | p # ps \<Rightarrow> (c # p) # ps))"

section \<open>CommandExecutor (executor.ts)\<close>

text \<open>
  The calls to the terminal only write log lines and are left out.
  The template literal \<^verbatim>\<open>`--${argDef.name}`\<close>.
\<close>

definition flagToken :: "string \<Rightarrow> string" where
  "flagToken n = ''--'' @ n"

text \<open>
  The value one round of the loop of \<^verbatim>\<open>_buildCommandArguments\<close> settles on:
  \<^verbatim>\<open>params[argDef.name]\<close>, replaced by the default when the read gave
  \<^verbatim>\<open>undefined\<close> and a default is declared.
\<close>

definition resolvedValue :: "ICommandExecutionParams \<Rightarrow> ICommandArgument \<Rightarrow> jsvalue option" where
  "resolvedValue params argDef =
    (let value = getProperty params (name argDef)
     in if value = None \<and> defaultValue argDef \<noteq> None
        then map_option Scalar (defaultValue argDef) else value)"

text \<open>
  The round itself: skip when there is no value, else push the flag and the
  rendered value.
\<close>

definition buildStep ::
  "ICommandExecutionParams \<Rightarrow> string list \<Rightarrow> ICommandArgument \<Rightarrow> string list" where
  "buildStep params args argDef =
    (case resolvedValue params argDef of
       None \<Rightarrow> args
     | Some v \<Rightarrow> args @ [flagToken (name argDef)] @ [String_of v])"

definition buildCommandArguments ::
  "ICommandLineEntry \<Rightarrow> ICommandExecutionParams \<Rightarrow> string list" where
  "buildCommandArguments cmd params = foldl (buildStep params) [] (arguments cmd)"

text \<open>The three messages of the validator.\<close>

definition missingMessage :: "string \<Rightarrow> string" where
  "missingMessage n = ''Required argument '' @ [CHR 0x27] @ n @ [CHR 0x27] @ '' is missing''"

definition typeMessage :: "string \<Rightarrow> string \<Rightarrow> string" where
  "typeMessage n t = ''Argument '' @ [CHR 0x27] @ n @ [CHR 0x27] @ '' must be a '' @ t"

text \<open>\<^verbatim>\<open>_validateArgumentType\<close>: \<open>None\<close> is the \<^verbatim>\<open>undefined\<close> of a passed check.\<close>

definition validateArgumentType :: "ICommandArgument \<Rightarrow> scalar \<Rightarrow> string option" where
  "validateArgumentType argDef v =
    (case argType argDef of
       TString \<Rightarrow>
         if typeof v \<noteq> ''string'' then Some (typeMessage (name argDef) ''string'') else None
     | TNumber \<Rightarrow>
         if typeof v \<noteq> ''number'' \<and> isNaN_Number v
         then Some (typeMessage (name argDef) ''number'') else None
     | TBoolean \<Rightarrow>
         if typeof v \<noteq> ''boolean'' \<and> v \<noteq> Str ''true'' \<and> v \<noteq> Str ''false''
         then Some (typeMessage (name argDef) ''boolean'') else None)"

text \<open>The first loop of \<^verbatim>\<open>validateParameters\<close>, over the declared arguments.\<close>

definition requiredStep ::
  "ICommandExecutionParams \<Rightarrow> string list \<Rightarrow> ICommandArgument \<Rightarrow> string list" where
  "requiredStep params errors arg =
    (if required arg \<and> \<not> hasProperty (name arg) params
     then errors @ [missingMessage (name arg)] else errors)"

text \<open>The second loop, over the entries of the parameter object.\<close>

definition typeStep ::
  "ICommandLineEntry \<Rightarrow> string list \<Rightarrow> string \<times> scalar \<Rightarrow> string list" where
  "typeStep cmd errors entry =
    (case entry of (paramName, paramValue) \<Rightarrow>
       (case find (\<lambda>a. name a = paramName) (arguments cmd) of
          Some argDef \<Rightarrow>
            (case validateArgumentType argDef paramValue of
               Some typeError \<Rightarrow> errors @ [typeError]
             | None \<Rightarrow> errors)
        | None \<Rightarrow> errors))"

definition validateParameters ::
  "ICommandLineEntry \<Rightarrow> ICommandExecutionParams \<Rightarrow> string list" where
  "validateParameters cmd params =
    (let errors = foldl (requiredStep params) [] (arguments cmd)
     in foldl (typeStep cmd) errors (Object_entries params))"

text \<open>
  \<^verbatim>\<open>Executable.spawnSync\<close> belongs to a library; it is a parameter of the model.
  It either throws or returns the record of the child process: the exit status
  (\<^verbatim>\<open>null\<close> when the child did not exit by itself), the two captured streams
  (\<^verbatim>\<open>null\<close> when there was no child), and the \<^verbatim>\<open>error\<close> of a child that could not
  be started. The library throws when it does not find the executable file; a file
  that is found but cannot be started makes it return a record with that error.
\<close>

datatype thrown = ErrorObject string | OtherValue string

record SpawnSyncReturns =
  status :: "int option"
  spawnStdout :: "string option"
  spawnStderr :: "string option"
  spawnError :: "thrown option"

type_synonym spawner = "string \<Rightarrow> string list \<Rightarrow> thrown + SpawnSyncReturns"

text \<open>\<^verbatim>\<open>error instanceof Error ? error.message : String(error)\<close>.\<close>

fun errorMsgOf :: "thrown \<Rightarrow> string" where
  "errorMsgOf (ErrorObject message) = message"
| "errorMsgOf (OtherValue text) = text"

text \<open>\<^verbatim>\<open>x || ''\<close> on an optional string and \<^verbatim>\<open>x || 0\<close> on an optional number.\<close>

definition orEmpty :: "string option \<Rightarrow> string" where
  "orEmpty x = (case x of None \<Rightarrow> [] | Some s \<Rightarrow> s)"

definition orZero :: "int option \<Rightarrow> int" where
  "orZero x = (case x of None \<Rightarrow> 0 | Some n \<Rightarrow> n)"

text \<open>
  The body of the \<^verbatim>\<open>try\<close> block of \<^verbatim>\<open>executeCommand\<close>: \<open>Inl\<close> is an exception
  leaving the block. \<^verbatim>\<open>split\<close> never gives an empty array, so the first
  branch of the case on \<open>commandParts\<close> is never taken.
\<close>

definition tryBlock ::
  "spawner \<Rightarrow> ICommandLineEntry \<Rightarrow> ICommandExecutionParams \<Rightarrow> thrown + ICommandExecutionResult" where
  "tryBlock spawnSync cmd params =
    (let args = buildCommandArguments cmd params;
         commandParts = split_space (command cmd)
     in case commandParts of
          [] \<Rightarrow> Inl (OtherValue ''unreachable'')
        | executable # baseArgs \<Rightarrow>
            (let allArgs = baseArgs @ args
             in case spawnSync executable allArgs of
                  Inl error \<Rightarrow> Inl error
                | Inr result \<Rightarrow>
                    Inr \<lparr> success = (status result = Some 0),
                          stdout = orEmpty (spawnStdout result),
                          stderr = orEmpty (spawnStderr result),
                          exitCode = orZero (status result) \<rparr>))"

text \<open>
  \<^verbatim>\<open>executeCommand\<close>: the \<^verbatim>\<open>try\<close> block with its \<^verbatim>\<open>catch\<close>. The result is a
  sum so that an exception leaving the method would be visible as \<open>Inl\<close>.
\<close>

definition executeCommand ::
  "spawner \<Rightarrow> ICommandLineEntry \<Rightarrow> ICommandExecutionParams \<Rightarrow> thrown + ICommandExecutionResult" where
  "executeCommand spawnSync cmd params =
    (case tryBlock spawnSync cmd params of
       Inr r \<Rightarrow> Inr r
     | Inl error \<Rightarrow>
         Inr \<lparr> success = False, stdout = [], stderr = errorMsgOf error, exitCode = - 1 \<rparr>)"

section \<open>Closed forms of the loops\<close>

text \<open>
  The loops above push onto a growing array. The definitions of this section say
  what each round contributes, as a list of its own; the lemmas below show that
  the loops compute the concatenation of these contributions.
\<close>

text \<open>What one declared argument contributes to the argument vector.\<close>

definition argPair :: "ICommandExecutionParams \<Rightarrow> ICommandArgument \<Rightarrow> string list" where
  "argPair params argDef =
    (case resolvedValue params argDef of
       None \<Rightarrow> []
     | Some v \<Rightarrow> [flagToken (name argDef), String_of v])"

text \<open>The messages of the first loop of the validator.\<close>

definition missingErrors :: "ICommandLineEntry \<Rightarrow> ICommandExecutionParams \<Rightarrow> string list" where
  "missingErrors cmd params =
    map (\<lambda>a. missingMessage (name a))
      (filter (\<lambda>a. required a \<and> \<not> hasProperty (name a) params) (arguments cmd))"

text \<open>What one entry of the parameter object contributes in the second loop.\<close>

definition typeErrorOf :: "ICommandLineEntry \<Rightarrow> string \<times> scalar \<Rightarrow> string list" where
  "typeErrorOf cmd entry =
    (case find (\<lambda>a. name a = fst entry) (arguments cmd) of
       None \<Rightarrow> []
     | Some argDef \<Rightarrow>
         (case validateArgumentType argDef (snd entry) of
            None \<Rightarrow> []
          | Some typeError \<Rightarrow> [typeError]))"

text \<open>A name that every plain object inherits from \<^verbatim>\<open>Object.prototype\<close>.\<close>

definition inheritedName :: "string \<Rightarrow> bool" where
  "inheritedName n = (n \<in> set (map fst objectPrototype))"

section \<open>Example inputs\<close>

text \<open>The command of the README and of the scenarios: \<^verbatim>\<open>echo\<close> with one required string.\<close>

definition messageArg :: ICommandArgument where
  "messageArg = \<lparr> name = ''message'', description = ''The message to echo'', argType = TString,
     required = True, defaultValue = None \<rparr>"

definition echoTest :: ICommandLineEntry where
  "echoTest = \<lparr> cmdName = ''echo-test'', cmdDescription = ''Echo a message'', command = ''echo'',
     arguments = [messageArg] \<rparr>"

text \<open>Two optional arguments, declared in the order path, depth.\<close>

definition pathArg :: ICommandArgument where
  "pathArg = \<lparr> name = ''path'', description = ''Directory to list'', argType = TString,
     required = False, defaultValue = None \<rparr>"

definition depthArg :: ICommandArgument where
  "depthArg = \<lparr> name = ''depth'', description = ''Levels to descend'', argType = TNumber,
     required = False, defaultValue = None \<rparr>"

definition listFiles :: ICommandLineEntry where
  "listFiles = \<lparr> cmdName = ''list-files'', cmdDescription = ''List files'', command = ''ls -la'',
     arguments = [pathArg, depthArg] \<rparr>"

text \<open>A boolean argument.\<close>

definition allArg :: ICommandArgument where
  "allArg = \<lparr> name = ''all'', description = ''Stage all changes'', argType = TBoolean,
     required = False, defaultValue = None \<rparr>"

definition gitCommit :: ICommandLineEntry where
  "gitCommit = \<lparr> cmdName = ''git-commit'', cmdDescription = ''Commit'', command = ''git commit'',
     arguments = [allArg] \<rparr>"

text \<open>The optional number with default 10 of the last scenario.\<close>

definition countArg :: ICommandArgument where
  "countArg = \<lparr> name = ''count'', description = ''How many'', argType = TNumber,
     required = False, defaultValue = Some (Num (Integer False 10)) \<rparr>"

definition headCommand :: ICommandLineEntry where
  "headCommand = \<lparr> cmdName = ''head'', cmdDescription = ''First lines'', command = ''head'',
     arguments = [countArg] \<rparr>"

text \<open>
  Arguments whose names are members of \<^verbatim>\<open>Object.prototype\<close>: a required string
  \<^verbatim>\<open>constructor\<close>, an optional string \<^verbatim>\<open>toString\<close> without default, a required
  string \<^verbatim>\<open>valueOf\<close> next to \<^verbatim>\<open>message\<close>, and a required string
  \<^verbatim>\<open>hasOwnProperty\<close> with a default.
\<close>

definition constructorArg :: ICommandArgument where
  "constructorArg = \<lparr> name = ''constructor'', description = ''Class constructor to inspect'',
     argType = TString, required = True, defaultValue = None \<rparr>"

definition inspectCommand :: ICommandLineEntry where
  "inspectCommand = \<lparr> cmdName = ''inspect'', cmdDescription = ''Inspect a class'',
     command = ''inspect'', arguments = [constructorArg] \<rparr>"

definition toStringArg :: ICommandArgument where
  "toStringArg = \<lparr> name = ''toString'', description = ''Print as text'', argType = TString,
     required = False, defaultValue = None \<rparr>"

definition printCommand :: ICommandLineEntry where
  "printCommand = \<lparr> cmdName = ''print'', cmdDescription = ''Print a value'', command = ''print'',
     arguments = [toStringArg] \<rparr>"

definition valueOfArg :: ICommandArgument where
  "valueOfArg = \<lparr> name = ''valueOf'', description = ''Key to read'', argType = TString,
     required = True, defaultValue = None \<rparr>"

definition readCommand :: ICommandLineEntry where
  "readCommand = \<lparr> cmdName = ''read'', cmdDescription = ''Read a key'', command = ''read'',
     arguments = [messageArg, valueOfArg] \<rparr>"

definition hasOwnPropertyArg :: ICommandArgument where
  "hasOwnPropertyArg = \<lparr> name = ''hasOwnProperty'', description = ''Property to test'',
     argType = TString, required = True, defaultValue = Some (Str ''id'') \<rparr>"

definition testCommand :: ICommandLineEntry where
  "testCommand = \<lparr> cmdName = ''test'', cmdDescription = ''Test a property'', command = ''test'',
     arguments = [hasOwnPropertyArg] \<rparr>"

text \<open>
  Three behaviours of the spawner: the child is killed by a signal, so that it has
  no exit status; the executable file is not found, which the library reports by
  throwing an \<^verbatim>\<open>Error\<close> whose message quotes the file name; and the file is found
  but cannot be started (a directory, a script whose interpreter is missing), which
  gives a record without status and streams that carries the error.
\<close>

definition killedBySignal :: spawner where
  "killedBySignal executable allArgs =
     Inr \<lparr> status = None, spawnStdout = Some [], spawnStderr = Some [],
           spawnError = None \<rparr>"

definition sleepCommand :: ICommandLineEntry where
  "sleepCommand = \<lparr> cmdName = ''sleep'', cmdDescription = ''Wait'', command = ''sleep 1000'',
     arguments = [] \<rparr>"

definition notFound :: spawner where
  "notFound executable allArgs =
     Inl (ErrorObject
       (''The executable file was not found: '' @ [CHR 0x22] @ executable @ [CHR 0x22]))"

definition missingTool :: ICommandLineEntry where
  "missingTool = \<lparr> cmdName = ''tool'', cmdDescription = ''Not installed'',
     command = ''no-such-tool -v'', arguments = [] \<rparr>"

definition cannotStart :: spawner where
  "cannotStart executable allArgs =
     Inr \<lparr> status = None, spawnStdout = None, spawnStderr = None,
           spawnError = Some (ErrorObject (''spawnSync '' @ executable @ '' EACCES'')) \<rparr>"

definition tmpCommand :: ICommandLineEntry where
  "tmpCommand = \<lparr> cmdName = ''tmp'', cmdDescription = ''A directory, not a program'',
     command = ''/tmp'', arguments = [] \<rparr>"

section \<open>The loops as concatenations\<close>

lemma split_space_nonempty: "split_space s \<noteq> []"
  by (induction s) (auto split: list.splits)

lemma foldl_buildStep:
  "foldl (buildStep params) acc as = acc @ concat (map (argPair params) as)"
  by (induction as arbitrary: acc) (auto simp: buildStep_def argPair_def split: option.splits)

lemma build_concat:
  "buildCommandArguments cmd params = concat (map (argPair params) (arguments cmd))"
  by (simp add: buildCommandArguments_def foldl_buildStep)

lemma foldl_requiredStep:
  "foldl (requiredStep params) acc as =
     acc @ map (\<lambda>a. missingMessage (name a))
             (filter (\<lambda>a. required a \<and> \<not> hasProperty (name a) params) as)"
  by (induction as arbitrary: acc) (auto simp: requiredStep_def)

lemma typeStep_append: "typeStep cmd errors entry = errors @ typeErrorOf cmd entry"
  by (cases entry) (auto simp: typeStep_def typeErrorOf_def split: option.splits)

lemma foldl_typeStep:
  "foldl (typeStep cmd) acc es = acc @ concat (map (typeErrorOf cmd) es)"
  by (induction es arbitrary: acc) (auto simp: typeStep_append)

text \<open>
  The validator returns every message of the first loop, then every message of the
  second: no round of either loop ends the run.
\<close>

lemma validate_split:
  "validateParameters cmd params = missingErrors cmd params @ concat (map (typeErrorOf cmd) params)"
  by (simp add: validateParameters_def Object_entries_def foldl_requiredStep foldl_typeStep
      missingErrors_def)

section \<open>Property reads\<close>

lemma hasProperty_iff:
  "hasProperty key params = (key \<in> set (map fst params) \<or> inheritedName key)"
  by (auto simp: hasProperty_def inheritedName_def map_of_eq_None_iff)

lemma getProperty_cong:
  "map_of ps = map_of qs \<Longrightarrow> getProperty ps = getProperty qs"
  by (auto simp: getProperty_def fun_eq_iff)

lemma map_of_insert_other:
  "n \<noteq> key \<Longrightarrow> map_of (ps @ (key, v) # qs) n = map_of (ps @ qs) n"
  by (simp add: map_add_def map_of_append split: option.splits)

lemma getProperty_insert_other:
  assumes "n \<noteq> key"
  shows "getProperty (ps @ (key, v) # qs) n = getProperty (ps @ qs) n"
  by (simp only: getProperty_def map_of_insert_other [OF assms])

lemma hasProperty_insert_other:
  assumes "n \<noteq> key"
  shows "hasProperty n (ps @ (key, v) # qs) = hasProperty n (ps @ qs)"
  by (simp only: hasProperty_def map_of_insert_other [OF assms])

lemma resolvedValue_own:
  "map_of params (name argDef) = Some v \<Longrightarrow> resolvedValue params argDef = Some (Scalar v)"
  by (simp add: resolvedValue_def getProperty_def)

lemma resolvedValue_default:
  assumes "name argDef \<notin> set (map fst params)" and "\<not> inheritedName (name argDef)"
  shows "resolvedValue params argDef = map_option Scalar (defaultValue argDef)"
proof -
  from assms have "map_of params (name argDef) = None"
    and "map_of objectPrototype (name argDef) = None"
    by (simp_all add: inheritedName_def map_of_eq_None_iff)
  then show ?thesis
    by (cases "defaultValue argDef") (simp_all add: resolvedValue_def getProperty_def)
qed

lemma resolvedValue_inherited:
  "name argDef \<notin> set (map fst params) \<Longrightarrow>
   map_of objectPrototype (name argDef) = Some text \<Longrightarrow>
   resolvedValue params argDef = Some (Inherited text)"
  by (auto simp: resolvedValue_def getProperty_def map_of_eq_None_iff split: option.splits)

section \<open>Declared names\<close>

lemma find_None_names:
  "find (\<lambda>a. name a = key) as = None \<Longrightarrow> a \<in> set as \<Longrightarrow> name a \<noteq> key"
  by (auto simp: find_None_iff)

lemma find_name:
  "find (\<lambda>a. name a = k) as = Some argDef \<Longrightarrow> name argDef = k \<and> argDef \<in> set as"
  by (induction as) (auto split: if_splits)

lemma flagToken_inject: "flagToken m = flagToken n \<Longrightarrow> m = n"
  by (simp add: flagToken_def)

lemma typeErrorOf_undeclared:
  "find (\<lambda>a. name a = key) (arguments cmd) = None \<Longrightarrow> typeErrorOf cmd (key, v) = []"
  by (simp add: typeErrorOf_def)

lemma typeErrorOf_rejected:
  "find (\<lambda>a. name a = k) (arguments cmd) = Some argDef \<Longrightarrow>
   validateArgumentType argDef v = Some e \<Longrightarrow>
   e \<in> set (validateParameters cmd (ps @ (k, v) # qs))"
  by (simp add: validate_split typeErrorOf_def)

lemma typeStep_found:
  "find (\<lambda>a. name a = k) (arguments cmd) = Some argDef \<Longrightarrow>
   typeStep cmd errors (k, v) =
     (case validateArgumentType argDef v of None \<Rightarrow> errors | Some e \<Rightarrow> errors @ [e])"
  by (simp add: typeStep_def split: option.splits)

lemma validate_single:
  "arguments cmd = [argDef] \<Longrightarrow> validateArgumentType argDef v = None \<Longrightarrow>
   validateParameters cmd [(name argDef, v)] = []"
  by (simp add: validate_split missingErrors_def typeErrorOf_def hasProperty_def)

text \<open>
  In a concatenation of blocks that are each empty or a pair, every element at an
  even position is the first component of one of the pairs.
\<close>

lemma even_positions:
  assumes "\<And>x. x \<in> set xs \<Longrightarrow> f x = [] \<or> (\<exists>v. f x = [g x, v])"
    and "2 * i < length (concat (map f xs))"
  shows "\<exists>x \<in> set xs. concat (map f xs) ! (2 * i) = g x"
  using assms
proof (induction xs arbitrary: i)
  case Nil
  then show ?case by simp
next
  case (Cons x xs)
  have hx: "f x = [] \<or> (\<exists>v. f x = [g x, v])"
    using Cons.prems(1) by simp
  have hxs: "\<And>y. y \<in> set xs \<Longrightarrow> f y = [] \<or> (\<exists>v. f y = [g y, v])"
    using Cons.prems(1) by simp
  show ?case
  proof (cases "f x = []")
    case True
    with Cons.IH [OF hxs, of i] Cons.prems(2) show ?thesis by auto
  next
    case False
    then obtain v where fx: "f x = [g x, v]" using hx by auto
    show ?thesis
    proof (cases i)
      case 0
      then show ?thesis using fx by simp
    next
      case (Suc j)
      with Cons.prems(2) fx have "2 * j < length (concat (map f xs))" by simp
      from Cons.IH [OF hxs this]
      obtain y where "y \<in> set xs" and "concat (map f xs) ! (2 * j) = g y"
        by auto
      then show ?thesis using fx Suc by (auto simp: nth_append)
    qed
  qed
qed

lemma build_flags:
  assumes "2 * i < length (buildCommandArguments cmd params)"
  shows "\<exists>a \<in> set (arguments cmd).
           buildCommandArguments cmd params ! (2 * i) = flagToken (name a)"
proof -
  have "\<And>a. argPair params a = [] \<or> (\<exists>v. argPair params a = [flagToken (name a), v])"
    by (auto simp: argPair_def split: option.splits)
  from even_positions [where f = "argPair params" and g = "\<lambda>a. flagToken (name a)", OF this]
  show ?thesis using assms by (simp add: build_concat)
qed

section \<open>The execution result\<close>

text \<open>
  When the spawner returns, \<open>success\<close> is decided by the status alone and the
  exit code is the status, or 0 when there is none.
\<close>

lemma returned_result:
  "split_space (command cmd) = executable # baseArgs \<Longrightarrow>
   spawnSync executable (baseArgs @ buildCommandArguments cmd params) = Inr result \<Longrightarrow>
   executeCommand spawnSync cmd params =
     Inr \<lparr> success = (status result = Some 0),
           stdout = orEmpty (spawnStdout result),
           stderr = orEmpty (spawnStderr result),
           exitCode = orZero (status result) \<rparr>"
  by (simp add: executeCommand_def tryBlock_def)

text \<open>A successful result always has exit code 0.\<close>

lemma success_implies_exit_zero:
  "executeCommand spawnSync cmd params = Inr r \<Longrightarrow> success r \<Longrightarrow> exitCode r = 0"
  by (auto simp: executeCommand_def tryBlock_def orZero_def Let_def
      split: sum.splits list.splits)

text \<open>
  The converse holds when the child exited by itself (the status is a number) and
  when the spawner threw.
\<close>

lemma exited_success_iff_exit_zero:
  "split_space (command cmd) = executable # baseArgs \<Longrightarrow>
   spawnSync executable (baseArgs @ buildCommandArguments cmd params) = Inr result \<Longrightarrow>
   status result \<noteq> None \<Longrightarrow>
   executeCommand spawnSync cmd params = Inr r \<Longrightarrow>
   success r = (exitCode r = 0)"
  by (auto simp: executeCommand_def tryBlock_def orZero_def)

lemma thrown_success_iff_exit_zero:
  "tryBlock spawnSync cmd params = Inl error \<Longrightarrow>
   executeCommand spawnSync cmd params = Inr r \<Longrightarrow>
   success r = (exitCode r = 0)"
  by (auto simp: executeCommand_def)

text \<open>
  C1. The claim: in every result of \<open>executeCommand\<close>, \<open>success\<close> is true if and
  only if \<open>exitCode\<close> is 0. The code computes \<open>success\<close> as
  \<^verbatim>\<open>result.status === 0\<close> and \<open>exitCode\<close> as \<^verbatim>\<open>result.status || 0\<close>. For a child
  without exit status (killed by a signal) the status is \<^verbatim>\<open>null\<close>: the result has
  \<open>success = False\<close> together with \<open>exitCode = 0\<close>.
\<close>

theorem executeCommand_null_status:
  "executeCommand killedBySignal sleepCommand [] =
     Inr \<lparr> success = False, stdout = [], stderr = [], exitCode = 0 \<rparr>"
  by (simp add: executeCommand_def tryBlock_def sleepCommand_def killedBySignal_def orEmpty_def
      orZero_def buildCommandArguments_def)

text \<open>
  \<open>executeCommand\<close> always returns a result: no exception leaves it.
\<close>

lemma executeCommand_returns:
  "\<exists>r. executeCommand spawnSync cmd params = Inr r"
  by (auto simp: executeCommand_def split: sum.splits)

text \<open>
  When the spawner throws, the \<^verbatim>\<open>catch\<close> gives the result with
  \<open>success = False\<close>, \<open>exitCode = -1\<close>, an empty \<open>stdout\<close> and the message of the
  thrown value as \<open>stderr\<close>. For the executable file that is not found this is the
  library's message, which is never empty.
\<close>

lemma thrown_spawn_result:
  "split_space (command cmd) = executable # baseArgs \<Longrightarrow>
   spawnSync executable (baseArgs @ buildCommandArguments cmd params) = Inl error \<Longrightarrow>
   executeCommand spawnSync cmd params =
     Inr \<lparr> success = False, stdout = [], stderr = errorMsgOf error, exitCode = - 1 \<rparr>"
  by (simp add: executeCommand_def tryBlock_def)

lemma not_found_result:
  "split_space (command cmd) = executable # baseArgs \<Longrightarrow>
   executeCommand notFound cmd params =
     Inr \<lparr> success = False, stdout = [],
           stderr = ''The executable file was not found: '' @ [CHR 0x22] @ executable @
                    [CHR 0x22],
           exitCode = - 1 \<rparr>"
  using thrown_spawn_result [of cmd executable baseArgs notFound params]
  by (simp add: notFound_def)

lemma missing_tool_result:
  "executeCommand notFound missingTool [] =
     Inr \<lparr> success = False, stdout = [],
           stderr = ''The executable file was not found: '' @ [CHR 0x22] @ ''no-such-tool'' @
                    [CHR 0x22],
           exitCode = - 1 \<rparr>"
  by (simp add: not_found_result missingTool_def)

text \<open>
  C2. The claim: \<open>executeCommand\<close> never throws, and when the spawn fails
  entirely it returns \<open>success = False\<close>, \<open>exitCode = -1\<close>, an empty \<open>stdout\<close> and a
  non-empty failure description in \<open>stderr\<close>. The code builds that result only in
  its \<^verbatim>\<open>catch\<close>, and never reads \<^verbatim>\<open>result.error\<close>. For a file that is found
  but cannot be started the spawner does not throw: the failure is in the record it
  returns, and the result has \<open>exitCode = 0\<close> and an empty \<open>stderr\<close>.
\<close>

theorem spawn_error_not_reported:
  "executeCommand cannotStart tmpCommand [] =
     Inr \<lparr> success = False, stdout = [], stderr = [], exitCode = 0 \<rparr>"
  by (simp add: executeCommand_def tryBlock_def tmpCommand_def cannotStart_def orEmpty_def
      orZero_def buildCommandArguments_def)

section \<open>Undeclared parameters\<close>

text \<open>
  C3. A key of the parameter object that matches no declared argument name produces
  no validation error, and is never forwarded: with the entry or without it the
  validator returns the same errors and the builder the same argument vector, and no
  flag of the vector (the elements at the even positions) is the flag of that key.
\<close>

theorem undeclared_parameter_never_forwarded:
  assumes "find (\<lambda>a. name a = key) (arguments cmd) = None"
  shows "validateParameters cmd (ps @ (key, v) # qs) = validateParameters cmd (ps @ qs) \<and>
         buildCommandArguments cmd (ps @ (key, v) # qs) = buildCommandArguments cmd (ps @ qs) \<and>
         (\<forall>i. 2 * i < length (buildCommandArguments cmd (ps @ (key, v) # qs)) \<longrightarrow>
              buildCommandArguments cmd (ps @ (key, v) # qs) ! (2 * i) \<noteq> flagToken key)"
proof (intro conjI allI impI)
  have other: "\<And>a. a \<in> set (arguments cmd) \<Longrightarrow> name a \<noteq> key"
    using assms by (rule find_None_names)
  have "filter (\<lambda>a. required a \<and> \<not> hasProperty (name a) (ps @ (key, v) # qs)) (arguments cmd) =
        filter (\<lambda>a. required a \<and> \<not> hasProperty (name a) (ps @ qs)) (arguments cmd)"
    by (rule filter_cong) (auto simp: hasProperty_insert_other other)
  then have "missingErrors cmd (ps @ (key, v) # qs) = missingErrors cmd (ps @ qs)"
    by (simp add: missingErrors_def)
  then show "validateParameters cmd (ps @ (key, v) # qs) = validateParameters cmd (ps @ qs)"
    using assms by (simp add: validate_split typeErrorOf_undeclared)
  have "map (argPair (ps @ (key, v) # qs)) (arguments cmd) = map (argPair (ps @ qs)) (arguments cmd)"
    by (rule map_cong) (auto simp: argPair_def resolvedValue_def getProperty_insert_other other)
  then show "buildCommandArguments cmd (ps @ (key, v) # qs) = buildCommandArguments cmd (ps @ qs)"
    unfolding build_concat by (rule arg_cong)
  fix i
  assume "2 * i < length (buildCommandArguments cmd (ps @ (key, v) # qs))"
  from build_flags [OF this] obtain a where
    "a \<in> set (arguments cmd)" and
    "buildCommandArguments cmd (ps @ (key, v) # qs) ! (2 * i) = flagToken (name a)"
    by auto
  then show "buildCommandArguments cmd (ps @ (key, v) # qs) ! (2 * i) \<noteq> flagToken key"
    using other flagToken_inject by auto
qed

theorem undeclared_parameter_never_forwarded_witness:
  "validateParameters echoTest [(''message'', Str ''hello''), (''exec'', Str ''rm'')] = [] \<and>
   buildCommandArguments echoTest [(''message'', Str ''hello''), (''exec'', Str ''rm'')] =
     [''--message'', ''hello'']"
proof -
  have none: "find (\<lambda>a. name a = ''exec'') (arguments echoTest) = None"
    by (simp add: echoTest_def messageArg_def)
  have v: "validateParameters echoTest [(''message'', Str ''hello'')] = []"
    by (simp add: validate_split missingErrors_def typeErrorOf_def echoTest_def messageArg_def
        hasProperty_def validateArgumentType_def)
  have b: "buildCommandArguments echoTest [(''message'', Str ''hello'')] = [''--message'', ''hello'']"
    by (simp add: build_concat argPair_def resolvedValue_def getProperty_def echoTest_def
        messageArg_def flagToken_def)
  from undeclared_parameter_never_forwarded
    [OF none, of "[(''message'', Str ''hello'')]" "Str ''rm''" "[]"] v b
  show ?thesis by simp
qed

section \<open>Required arguments\<close>

text \<open>
  A required argument whose name is neither a key of the parameter object nor a
  member of \<^verbatim>\<open>Object.prototype\<close> is reported with the exact message; every
  message of the first loop belongs to a required argument; and a command without
  required arguments validates the empty parameter object.
\<close>

lemma missing_required_reported:
  assumes "a \<in> set (arguments cmd)" and "required a"
    and "name a \<notin> set (map fst params)" and "\<not> inheritedName (name a)"
  shows "missingMessage (name a) \<in> set (validateParameters cmd params)"
  using assms by (auto simp: validate_split missingErrors_def hasProperty_iff)

lemma missing_errors_only_required:
  "e \<in> set (missingErrors cmd params) \<Longrightarrow>
   \<exists>a \<in> set (arguments cmd). required a \<and> e = missingMessage (name a)"
  by (auto simp: missingErrors_def)

lemma optional_absent_no_error:
  "\<forall>a \<in> set (arguments cmd). \<not> required a \<Longrightarrow> validateParameters cmd [] = []"
  by (simp add: validate_split missingErrors_def)

lemma echo_missing_message:
  "validateParameters echoTest [] = [''Required argument 'message' is missing'']"
  by (simp add: validate_split missingErrors_def echoTest_def messageArg_def hasProperty_def
      objectPrototype_def missingMessage_def)

text \<open>
  C4. The claim: every argument declared required whose name is absent from the
  parameter map gets the message \<^verbatim>\<open>Required argument '<name>' is missing\<close>. The
  code tests absence with \<^verbatim>\<open>!(arg.name in params)\<close>, which is false for a name the
  object inherits. With the required argument \<^verbatim>\<open>constructor\<close> and the empty
  parameter object the validator reports nothing.
\<close>

theorem required_constructor_not_reported:
  "validateParameters inspectCommand [] = []"
  by (simp add: validateParameters_def Object_entries_def requiredStep_def hasProperty_def
      inspectCommand_def constructorArg_def objectPrototype_def)

section \<open>The argument vector\<close>

text \<open>
  C5. The argument vector lists the declared arguments in the order of their
  declaration; each argument with a resolved value contributes exactly the flag
  \<^verbatim>\<open>--<name>\<close> followed by the text of the value, every other argument nothing.
  The order of the entries of the parameter object does not matter: two objects with
  the same lookup give the same vector.
\<close>

theorem arguments_in_declaration_order:
  "buildCommandArguments cmd params =
     concat (map (\<lambda>argDef. case resolvedValue params argDef of
                              None \<Rightarrow> []
                            | Some v \<Rightarrow> [flagToken (name argDef), String_of v])
                 (arguments cmd)) \<and>
   (\<forall>params'. map_of params' = map_of params \<longrightarrow>
      buildCommandArguments cmd params' = buildCommandArguments cmd params)"
proof (intro conjI allI impI)
  show "buildCommandArguments cmd params =
     concat (map (\<lambda>argDef. case resolvedValue params argDef of
                              None \<Rightarrow> []
                            | Some v \<Rightarrow> [flagToken (name argDef), String_of v])
                 (arguments cmd))"
    by (simp add: build_concat argPair_def [abs_def])
next
  fix params' :: ICommandExecutionParams
  assume "map_of params' = map_of params"
  then have "getProperty params' = getProperty params"
    by (rule getProperty_cong)
  then have "argPair params' = argPair params"
    by (simp add: fun_eq_iff argPair_def resolvedValue_def)
  then show "buildCommandArguments cmd params' = buildCommandArguments cmd params"
    by (simp add: build_concat)
qed

theorem arguments_in_declaration_order_witness:
  "buildCommandArguments listFiles [(''depth'', Num (Integer False 2)), (''path'', Str ''src'')] =
     [''--path'', ''src'', ''--depth'', ''2''] \<and>
   buildCommandArguments listFiles [(''path'', Str ''src''), (''depth'', Num (Integer False 2))] =
     [''--path'', ''src'', ''--depth'', ''2'']"
proof -
  have m: "map_of [(''path'', Str ''src''), (''depth'', Num (Integer False 2))] =
           map_of [(''depth'', Num (Integer False 2)), (''path'', Str ''src'')]"
    by (auto simp: fun_eq_iff)
  have d: "decimal 2 = ''2''"
    by code_simp
  from arguments_in_declaration_order [of listFiles "[(''depth'', Num (Integer False 2)), (''path'', Str ''src'')]"] m d
  show ?thesis
    by (simp add: listFiles_def pathArg_def depthArg_def resolvedValue_def getProperty_def
        flagToken_def)
qed

section \<open>Resolution of the value\<close>

text \<open>
  For an argument whose name is not a member of \<^verbatim>\<open>Object.prototype\<close> the value is
  the one of the parameter object when the name is a key (\<open>resolvedValue_own\<close>),
  else the default when one is declared, else there is none
  (\<open>resolvedValue_default\<close>). The scenario of the optional number with default 10:
\<close>

lemma count_default:
  "buildCommandArguments headCommand [] = [''--count'', ''10'']"
proof -
  have "decimal 10 = ''10''" by code_simp
  then show ?thesis
    by (simp add: buildCommandArguments_def buildStep_def resolvedValue_def getProperty_def
        headCommand_def countArg_def objectPrototype_def flagToken_def)
qed

text \<open>
  C6. The claim: the value is the parameter map's value if the name is present, else
  the declared default, else the argument contributes nothing. The code reads
  \<^verbatim>\<open>params[argDef.name]\<close> and compares with \<^verbatim>\<open>undefined\<close>; for a name the object
  inherits the read gives the inherited member. The optional argument
  \<^verbatim>\<open>toString\<close> without default and the empty parameter object give a vector with
  the flag and the text of the built-in function.
\<close>

theorem inherited_member_forwarded:
  "buildCommandArguments printCommand [] =
     [''--toString'', ''function toString() { [native code] }'']"
  by (simp add: buildCommandArguments_def buildStep_def resolvedValue_def getProperty_def
      printCommand_def toStringArg_def objectPrototype_def nativeFunction_def flagToken_def)

section \<open>Type checks\<close>

text \<open>
  C7. For an argument declared boolean, the validator accepts a value of boolean
  type and the strings \<^verbatim>\<open>true\<close> and \<^verbatim>\<open>false\<close>: the type check passes, the round
  of the loop for the entry adds no error, and a command with this argument alone
  validates the entry. Every other string is rejected with the message
  \<^verbatim>\<open>Argument '<name>' must be a boolean\<close>, which is in the list the validator
  returns.
\<close>

theorem boolean_argument_validation:
  assumes "find (\<lambda>a. name a = k) (arguments cmd) = Some argDef"
    and "argType argDef = TBoolean"
  shows "(typeof v = ''boolean'' \<or> v = Str ''true'' \<or> v = Str ''false'' \<longrightarrow>
            validateArgumentType argDef v = None \<and>
            typeStep cmd errors (k, v) = errors \<and>
            (arguments cmd = [argDef] \<longrightarrow> validateParameters cmd [(k, v)] = [])) \<and>
         (\<forall>s. s \<noteq> ''true'' \<and> s \<noteq> ''false'' \<longrightarrow>
            validateArgumentType argDef (Str s) = Some (typeMessage k ''boolean'') \<and>
            typeStep cmd errors (k, Str s) = errors @ [typeMessage k ''boolean''] \<and>
            typeMessage k ''boolean'' \<in> set (validateParameters cmd (ps @ (k, Str s) # qs)))"
proof -
  have n: "name argDef = k"
    using find_name [OF assms(1)] by (rule conjunct1)
  have acc: "validateArgumentType argDef v = None"
    if "typeof v = ''boolean'' \<or> v = Str ''true'' \<or> v = Str ''false''"
    using that assms(2) by (auto simp: validateArgumentType_def)
  have rej: "validateArgumentType argDef (Str s) = Some (typeMessage k ''boolean'')"
    if "s \<noteq> ''true'' \<and> s \<noteq> ''false''" for s
    using that assms(2) n by (simp add: validateArgumentType_def)
  show ?thesis
  proof (intro conjI allI impI)
    assume a: "typeof v = ''boolean'' \<or> v = Str ''true'' \<or> v = Str ''false''"
    show "validateArgumentType argDef v = None"
      using acc [OF a] .
    show "typeStep cmd errors (k, v) = errors"
      using acc [OF a] assms(1) by (simp add: typeStep_found)
    assume single: "arguments cmd = [argDef]"
    show "validateParameters cmd [(k, v)] = []"
      using validate_single [OF single acc [OF a]] unfolding n .
  next
    fix s :: string
    assume a: "s \<noteq> ''true'' \<and> s \<noteq> ''false''"
    show "validateArgumentType argDef (Str s) = Some (typeMessage k ''boolean'')"
      using rej [OF a] .
    show "typeStep cmd errors (k, Str s) = errors @ [typeMessage k ''boolean'']"
      using rej [OF a] assms(1) by (simp add: typeStep_found)
    show "typeMessage k ''boolean'' \<in> set (validateParameters cmd (ps @ (k, Str s) # qs))"
      using typeErrorOf_rejected [OF assms(1) rej [OF a]] .
  qed
qed

theorem boolean_argument_validation_witness:
  "validateParameters gitCommit [(''all'', Bool True)] = [] \<and>
   validateParameters gitCommit [(''all'', Str ''false'')] = [] \<and>
   validateArgumentType allArg (Str ''yes'') = Some ''Argument 'all' must be a boolean'' \<and>
   ''Argument 'all' must be a boolean'' \<in> set (validateParameters gitCommit [(''all'', Str ''yes'')])"
proof -
  have f: "find (\<lambda>a. name a = ''all'') (arguments gitCommit) = Some allArg"
    by (simp add: gitCommit_def allArg_def)
  have t: "argType allArg = TBoolean"
    by (simp add: allArg_def)
  have m: "typeMessage ''all'' ''boolean'' = ''Argument 'all' must be a boolean''"
    by (simp add: typeMessage_def)
  have args: "arguments gitCommit = [allArg]"
    by (simp add: gitCommit_def)
  note c = boolean_argument_validation [OF f t]
  have "validateParameters gitCommit [(''all'', Bool True)] = []"
    using c [of "Bool True" "[]" "[]" "[]", THEN conjunct1] args by simp
  moreover have "validateParameters gitCommit [(''all'', Str ''false'')] = []"
    using c [of "Str ''false''" "[]" "[]" "[]", THEN conjunct1] args by simp
  moreover have "validateArgumentType allArg (Str ''yes'') = Some ''Argument 'all' must be a boolean'' \<and>
    ''Argument 'all' must be a boolean'' \<in> set (validateParameters gitCommit [(''all'', Str ''yes'')])"
    using c [of "Bool True" "[]" "[]" "[]", THEN conjunct2, THEN spec, of "''yes''"] m by simp
  ultimately show ?thesis by blast
qed

text \<open>
  C10. For an argument declared number, the validator accepts every boolean and the
  empty string, whose conversion to a number is not not-a-number: the type check
  passes, the round of the loop adds no error, and a command with this argument
  alone validates the entry. The check rejects a value exactly when it is not of
  number type and its conversion is not-a-number; so only values whose conversion is
  not-a-number are rejected.
\<close>

theorem number_argument_coercion:
  assumes "find (\<lambda>a. name a = k) (arguments cmd) = Some argDef"
    and "argType argDef = TNumber"
  shows "(v = Bool b \<or> v = Str [] \<longrightarrow>
            \<not> isNaN_Number v \<and>
            validateArgumentType argDef v = None \<and>
            typeStep cmd errors (k, v) = errors \<and>
            (arguments cmd = [argDef] \<longrightarrow> validateParameters cmd [(k, v)] = [])) \<and>
         (\<forall>w. validateArgumentType argDef w =
                (if typeof w \<noteq> ''number'' \<and> isNaN_Number w
                 then Some (typeMessage k ''number'') else None)) \<and>
         (\<forall>w e. validateArgumentType argDef w = Some e \<longrightarrow> isNaN_Number w)"
proof -
  have n: "name argDef = k"
    using find_name [OF assms(1)] by (rule conjunct1)
  have empty: "isStringNumericLiteral []"
    by (simp add: isStringNumericLiteral_def trimString_def)
  have char: "validateArgumentType argDef w =
                (if typeof w \<noteq> ''number'' \<and> isNaN_Number w
                 then Some (typeMessage k ''number'') else None)" for w
    using assms(2) n by (simp add: validateArgumentType_def)
  have acc: "\<not> isNaN_Number v \<and> validateArgumentType argDef v = None"
    if "v = Bool b \<or> v = Str []"
    using that empty by (auto simp: char)
  show ?thesis
  proof (intro conjI allI impI)
    assume a: "v = Bool b \<or> v = Str []"
    show "\<not> isNaN_Number v"
      using acc [OF a] by simp
    show "validateArgumentType argDef v = None"
      using acc [OF a] by simp
    show "typeStep cmd errors (k, v) = errors"
      using acc [OF a] assms(1) by (simp add: typeStep_found)
    assume single: "arguments cmd = [argDef]"
    show "validateParameters cmd [(k, v)] = []"
      using validate_single [OF single acc [OF a, THEN conjunct2]] unfolding n .
  next
    fix w
    show "validateArgumentType argDef w =
            (if typeof w \<noteq> ''number'' \<and> isNaN_Number w
             then Some (typeMessage k ''number'') else None)"
      by (rule char)
  next
    fix w e
    assume "validateArgumentType argDef w = Some e"
    then show "isNaN_Number w"
      by (simp add: char split: if_splits)
  qed
qed

theorem number_argument_coercion_witness:
  "validateParameters headCommand [(''count'', Bool True)] = [] \<and>
   validateParameters headCommand [(''count'', Bool False)] = [] \<and>
   validateParameters headCommand [(''count'', Str [])] = [] \<and>
   validateArgumentType countArg (Str ''ten'') = Some ''Argument 'count' must be a number'' \<and>
   validateArgumentType countArg (Str ''42'') = None"
proof -
  have f: "find (\<lambda>a. name a = ''count'') (arguments headCommand) = Some countArg"
    by (simp add: headCommand_def countArg_def)
  have t: "argType countArg = TNumber"
    by (simp add: countArg_def)
  have m: "typeMessage ''count'' ''number'' = ''Argument 'count' must be a number''"
    by (simp add: typeMessage_def)
  have args: "arguments headCommand = [countArg]"
    by (simp add: headCommand_def)
  have ten: "isNaN_Number (Str ''ten'')"
    by code_simp
  have n42: "\<not> isNaN_Number (Str ''42'')"
    by code_simp
  note c = number_argument_coercion [OF f t]
  have "validateParameters headCommand [(''count'', Bool True)] = []"
    using c [of "Bool True" True "[]", THEN conjunct1] args by simp
  moreover have "validateParameters headCommand [(''count'', Bool False)] = []"
    using c [of "Bool False" False "[]", THEN conjunct1] args by simp
  moreover have "validateParameters headCommand [(''count'', Str [])] = []"
    using c [of "Str []" True "[]", THEN conjunct1] args by simp
  moreover have
    "validateArgumentType countArg (Str ''ten'') = Some ''Argument 'count' must be a number''"
    using c [of "Str []" True "[]", THEN conjunct2, THEN conjunct1] m ten by simp
  moreover have "validateArgumentType countArg (Str ''42'') = None"
    using c [of "Str []" True "[]", THEN conjunct2, THEN conjunct1] n42 by simp
  ultimately show ?thesis by blast
qed

section \<open>All errors are collected\<close>

text \<open>
  The list the validator returns, written out: one message for every declared
  argument that is required and not found by \<^verbatim>\<open>in\<close>, then one message for every
  entry whose declared argument rejects its value.
\<close>

lemma validate_all_errors:
  "validateParameters cmd params =
     map (\<lambda>a. missingMessage (name a))
       (filter (\<lambda>a. required a \<and> \<not> hasProperty (name a) params) (arguments cmd)) @
     concat (map (typeErrorOf cmd) params)"
  by (simp add: validate_split missingErrors_def)

text \<open>
  C8. The claim: the validator returns one error per violated constraint; several
  required arguments all absent give one message each. The validator does run both
  loops to their ends (\<open>validate_all_errors\<close>), but a required argument whose name
  the object inherits is not counted as absent. With the required arguments
  \<^verbatim>\<open>message\<close> and \<^verbatim>\<open>valueOf\<close> and the empty parameter object only the first is
  reported.
\<close>

theorem two_missing_one_reported:
  "validateParameters readCommand [] = [''Required argument 'message' is missing'']"
  by (simp add: validateParameters_def Object_entries_def requiredStep_def hasProperty_def
      readCommand_def messageArg_def valueOfArg_def objectPrototype_def missingMessage_def)

section \<open>Defaults and requiredness\<close>

text \<open>
  The validator never reads \<open>defaultValue\<close>. For a name that is not a member of
  \<^verbatim>\<open>Object.prototype\<close>, a required argument with a default that is absent from
  the parameter object is reported missing, while the builder resolves the default.
\<close>

lemma required_with_default_still_missing:
  assumes "a \<in> set (arguments cmd)" and "required a" and "defaultValue a = Some d"
    and "name a \<notin> set (map fst params)" and "\<not> inheritedName (name a)"
  shows "missingMessage (name a) \<in> set (validateParameters cmd params) \<and>
         resolvedValue params a = Some (Scalar d)"
  using assms missing_required_reported [of a cmd params] resolvedValue_default [of a params]
  by simp

text \<open>
  C9. The claim: a required argument that declares a default is still reported
  missing when its name is absent from the parameter map, although the builder would
  resolve the default. With the required argument \<^verbatim>\<open>hasOwnProperty\<close>, default
  \<^verbatim>\<open>id\<close>, and the empty parameter object, the validator reports nothing and the
  builder forwards the inherited member instead of the default.
\<close>

theorem required_default_inherited:
  "validateParameters testCommand [] = [] \<and>
   buildCommandArguments testCommand [] =
     [''--hasOwnProperty'', ''function hasOwnProperty() { [native code] }'']"
  by (simp add: validateParameters_def Object_entries_def requiredStep_def hasProperty_def
      buildCommandArguments_def buildStep_def resolvedValue_def getProperty_def
      testCommand_def hasOwnPropertyArg_def objectPrototype_def nativeFunction_def flagToken_def)

end
